theory Spec2Isabelle
  imports Main
begin

section \<open>Values read from and written to a spreadsheet\<close>

text \<open>
  The importer and the exporters handle row objects whose cells have the TypeScript type
  \<open>any\<close>. A cell read from a sheet is a string, a number or a boolean; a key that is
  absent reads as \<open>undefined\<close>. The code uses a number in three ways only: its
  truthiness, its rendering \<open>String(v)\<close>, and as the argument of \<open>new Date\<close>.
  A number is therefore kept as its rendering \<open>String(v)\<close>, which identifies it
  (\<open>0\<close> and \<open>-0\<close> both render as 0 and are both falsy).
\<close>

datatype jsval = Undefined | Str string | Num string | Bool bool

text \<open>JavaScript truthiness, as used by \<open>!row["..."]\<close>.\<close>

fun truthy :: "jsval \<Rightarrow> bool" where
  "truthy Undefined = False"
| "truthy (Str s) = (s \<noteq> [])"
| "truthy (Num s) = (s \<noteq> ''0'' \<and> s \<noteq> ''NaN'')"
| "truthy (Bool b) = b"

text \<open>
  \<open>String(v)\<close>, the interpolation of \<open>v\<close> in a template string, and \<open>v.toString()\<close>,
  which the code calls on truthy values only.
\<close>

fun toString :: "jsval \<Rightarrow> string" where
  "toString Undefined = ''undefined''"
| "toString (Str s) = s"
| "toString (Num s) = s"
| "toString (Bool b) = (if b then ''true'' else ''false'')"

text \<open>
  \<open>String.prototype.trim\<close>: white space and line terminators are removed at both ends.
  The characters below are the ones of that class among the 8-bit characters.
\<close>

definition is_space :: "char \<Rightarrow> bool" where
  "is_space c = (c \<in> set [CHR 0x09, CHR 0x0A, CHR 0x0B, CHR 0x0C, CHR 0x0D, CHR 0x20, CHR 0xA0])"

definition trim :: "string \<Rightarrow> string" where
  "trim s = rev (dropWhile is_space (rev (dropWhile is_space s)))"

text \<open>\<open>Array.prototype.join\<close>.\<close>

fun join :: "string \<Rightarrow> string list \<Rightarrow> string" where
  "join sep [] = []"
| "join sep [x] = x"
| "join sep (x # y # ys) = x @ sep @ join sep (y # ys)"

text \<open>The decimal rendering of a non-negative integer in a template string.\<close>

definition digit_char :: "nat \<Rightarrow> char" where
  "digit_char d = ''0123456789'' ! d"

fun show_nat :: "nat \<Rightarrow> string" where
  "show_nat n = (if n < 10 then [digit_char n] else show_nat (n div 10) @ [digit_char (n mod 10)])"

declare show_nat.simps [simp del]

text \<open>
  A row object: its keys in insertion order, each with its value. \<open>row[k]\<close> is
  \<open>undefined\<close> for an absent key; \<open>k in row\<close> asks for the key only.
\<close>

type_synonym row = "(string \<times> jsval) list"

definition row_get :: "row \<Rightarrow> string \<Rightarrow> jsval" where
  "row_get r k = (case map_of r k of None \<Rightarrow> Undefined | Some v \<Rightarrow> v)"

definition has_key :: "string \<Rightarrow> row \<Rightarrow> bool" where
  "has_key k r = (k \<in> set (map fst r))"

section \<open>The backing store\<close>

text \<open>
  Table \<open>public.students\<close>. The columns \<open>class\<close> and \<open>section\<close> are named
  \<open>student_class\<close> and \<open>student_section\<close> here. The table declares
  \<open>UNIQUE(school_id, srn_no)\<close>.
\<close>

record student =
  school_id :: string
  srn_no :: string
  student_name :: string
  student_class :: string
  student_section :: string
  date_of_birth :: string
  photo_url :: "string option"
  registration_date :: string

text \<open>Table \<open>public.import_logs\<close>; the column \<open>errors\<close> is nullable.\<close>

record import_log =
  user_id :: string
  filename :: string
  total_records :: nat
  successful_records :: nat
  failed_records :: nat
  log_errors :: "string option"

text \<open>
  A call to the backend either resolves without error, resolves with an \<open>error\<close> object
  carrying a message, or throws. Which of these happens for reasons outside the tables and
  their policies (network, other constraints) is given by the environment.
\<close>

datatype fault = NoFault | Fails string | Throws string

datatype 'a reply = Returned 'a | Threw string

text \<open>The type \<open>user_role\<close>, with the value added by the later migration.\<close>

datatype user_role = Admin | School | Editor

text \<open>
  The environment of one import run: the outcome of \<open>supabase.auth.getUser()\<close> (the id of
  the signed-in user, if any); the row of that user in \<open>user_profiles\<close>, as
  \<open>get_user_role(auth.uid())\<close> and \<open>get_user_school(auth.uid())\<close> read it (null
  without a profile row); the faults of the uniqueness lookup and of the insert of
  the row with a given index, the fault of the log insert, the clock reading
  \<open>new Date().toISOString()\<close> at a given row, and the date parser
  \<open>new Date(v)\<close> followed by \<open>toISOString().split('T')[0]\<close>, which is \<open>None\<close> where
  \<open>isNaN(date.getTime())\<close>. The requests of the run carry the session that
  \<open>getUser\<close> reports.
\<close>

record env =
  getUser :: "string option reply"
  profile_role :: "user_role option"
  profile_school :: "string option"
  lookup_fault :: "nat \<Rightarrow> fault"
  insert_fault :: "nat \<Rightarrow> fault"
  log_fault :: fault
  now :: "nat \<Rightarrow> string"
  parse_date :: "jsval \<Rightarrow> string option"

text \<open>\<open>.maybeSingle()\<close>: no row is no data, one row is that row, more rows are an error.\<close>

definition maybeSingle :: "'a list \<Rightarrow> string + 'a option" where
  "maybeSingle rows =
     (case rows of
        [] \<Rightarrow> Inr None
      | [r] \<Rightarrow> Inr (Some r)
      | _ \<Rightarrow> Inl ''JSON object requested, multiple (or no) rows returned'')"

text \<open>\<open>auth.uid()\<close> in the requests of the run.\<close>

definition auth_uid :: "env \<Rightarrow> string option" where
  "auth_uid e = (case getUser e of Returned u \<Rightarrow> u | Threw m \<Rightarrow> None)"

text \<open>
  Row level security of \<open>students\<close>. The three policies are \<open>TO authenticated\<close>: the
  school role manages the rows of its own school, the admin role views and manages all
  rows. The argument is the \<open>school_id\<close> of the row; the same condition decides which
  rows a select sees and which rows an insert may add.
\<close>

definition students_policy :: "env \<Rightarrow> string \<Rightarrow> bool" where
  "students_policy e sid =
     (case auth_uid e of
        None \<Rightarrow> False
      | Some uid \<Rightarrow>
          (profile_role e = Some School \<and> profile_school e = Some sid) \<or>
          profile_role e = Some Admin)"

text \<open>
  Row level security of \<open>import_logs\<close> for an insert:
  \<open>WITH CHECK (auth.uid() = user_id)\<close>.
\<close>

definition logs_policy :: "env \<Rightarrow> import_log \<Rightarrow> bool" where
  "logs_policy e entry = (auth_uid e = Some (user_id entry))"

text \<open>
  \<open>from("students").select("id").eq("srn_no", srnNo).eq("school_id", schoolId).maybeSingle()\<close>,
  over the rows that the policies let the session see.
\<close>

definition select_srn :: "(student \<Rightarrow> bool) \<Rightarrow> student list \<Rightarrow> fault \<Rightarrow> string \<Rightarrow> string \<Rightarrow> (string + student option) reply" where
  "select_srn visible db f srnNo schoolId =
     (case f of
        Throws m \<Rightarrow> Threw m
      | Fails m \<Rightarrow> Returned (Inl m)
      | NoFault \<Rightarrow>
          Returned (maybeSingle
            (filter (\<lambda>s. visible s \<and> srn_no s = srnNo \<and> school_id s = schoolId) db)))"

text \<open>The message of the store for a violated \<open>UNIQUE(school_id, srn_no)\<close>.\<close>

definition unique_violation :: string where
  "unique_violation =
     ''duplicate key value violates unique constraint '' @ [CHR 0x22] @
     ''students_school_id_srn_no_key'' @ [CHR 0x22]"

text \<open>The message of the store for a new row that no policy of the named table admits.\<close>

definition rls_violation :: "string \<Rightarrow> string" where
  "rls_violation table =
     ''new row violates row-level security policy for table '' @ [CHR 0x22] @ table @ [CHR 0x22]"

text \<open>
  \<open>from("students").insert(record)\<close>: the reply carries the \<open>error\<close> message, if any, and
  the table afterwards. The policies are checked on the new row; the uniqueness
  constraint ranges over all rows of the table, seen by the session or not.
\<close>

definition insert_student :: "(student \<Rightarrow> bool) \<Rightarrow> fault \<Rightarrow> student \<Rightarrow> student list \<Rightarrow> (string option \<times> student list) reply" where
  "insert_student allowed f new db =
     (case f of
        Throws m \<Rightarrow> Threw m
      | Fails m \<Rightarrow> Returned (Some m, db)
      | NoFault \<Rightarrow>
          if \<not> allowed new then Returned (Some (rls_violation ''students''), db)
          else if list_ex (\<lambda>s. school_id s = school_id new \<and> srn_no s = srn_no new) db
          then Returned (Some unique_violation, db)
          else Returned (None, db @ [new]))"

text \<open>\<open>from("import_logs").insert(entry)\<close>\<close>

definition insert_log :: "(import_log \<Rightarrow> bool) \<Rightarrow> fault \<Rightarrow> import_log \<Rightarrow> import_log list \<Rightarrow> (string option \<times> import_log list) reply" where
  "insert_log allowed f entry logs =
     (case f of
        Throws m \<Rightarrow> Threw m
      | Fails m \<Rightarrow> Returned (Some m, logs)
      | NoFault \<Rightarrow>
          if \<not> allowed entry then Returned (Some (rls_violation ''import_logs''), logs)
          else Returned (None, logs @ [entry]))"

section \<open>The importer (ExcelImport)\<close>

datatype toast = Success string | Error string | Warning string

record outcome =
  total :: nat
  successful :: nat
  failed :: nat
  error_list :: "string list"

text \<open>
  The state of the component together with the two tables it writes: the selected school,
  the loaded rows, the \<open>importing\<close> flag, the displayed results, the name of the file held
  by the file input, the toasts shown so far, the number of calls of
  \<open>onImportComplete\<close>, and the tables. The progress bar is not part of the model.
\<close>

record world =
  selectedSchool :: string
  importData :: "row list"
  importing :: bool
  results :: "outcome option"
  file_name :: "string option"
  toasts :: "toast list"
  completions :: nat
  students :: "student list"
  import_logs :: "import_log list"

definition toast_add :: "toast \<Rightarrow> world \<Rightarrow> world" where
  "toast_add t w = w\<lparr>toasts := toasts w @ [t]\<rparr>"

definition requiredColumns :: "string list" where
  "requiredColumns = [''Student Name'', ''SRN No'', ''Class'', ''Section'', ''Date of Birth'']"

text \<open>
  What \<open>XLSX.read\<close> and \<open>XLSX.utils.sheet_to_json\<close> make of the selected file: they
  throw, or they give the row objects of the first sheet.
\<close>

datatype read_result = ReadThrows string | ReadRows "row list"

text \<open>
  \<open>handleFileSelect\<close>. The event carries the file chosen in the file input, if any, as
  its name and what reading it gives; the input keeps that file, whatever the handler
  decides.
\<close>

definition handleFileSelect :: "(string \<times> read_result) option \<Rightarrow> world \<Rightarrow> world" where
  "handleFileSelect ev w =
     (case ev of
        None \<Rightarrow> w\<lparr>file_name := None\<rparr>
      | Some (fname, contents) \<Rightarrow>
          (let w1 = w\<lparr>file_name := Some fname\<rparr> in
           case contents of
             ReadThrows m \<Rightarrow> toast_add (Error ''Error reading Excel file'') w1
           | ReadRows jsonData \<Rightarrow>
               (case jsonData of
                  [] \<Rightarrow> toast_add (Error ''Excel file is empty'') w1
                | firstRow # _ \<Rightarrow>
                    (let missingColumns = filter (\<lambda>col. \<not> has_key col firstRow) requiredColumns in
                     if length missingColumns > 0
                     then toast_add (Error (''Missing required columns: '' @ join '', '' missingColumns)) w1
                     else toast_add
                            (Success (''Loaded '' @ show_nat (length jsonData) @ '' student records from Excel file''))
                            (w1\<lparr>importData := jsonData\<rparr>)))))"

text \<open>\<open>validateSRN\<close>: true if no existing student is found, false on an error of the lookup.\<close>

definition validateSRN :: "(student \<Rightarrow> bool) \<Rightarrow> student list \<Rightarrow> fault \<Rightarrow> jsval \<Rightarrow> string \<Rightarrow> bool reply" where
  "validateSRN visible db f srnNo schoolId =
     (case select_srn visible db f (toString srnNo) schoolId of
        Threw m \<Rightarrow> Threw m
      | Returned (Inl e) \<Rightarrow> Returned False
      | Returned (Inr d) \<Rightarrow> Returned (d = None))"

text \<open>The variables of the loop of \<open>importStudents\<close>, and the table \<open>students\<close>.\<close>

record tally =
  db :: "student list"
  successfulRecords :: nat
  failedRecords :: nat
  errors :: "string list"

definition row_failed :: "nat \<Rightarrow> string \<Rightarrow> tally \<Rightarrow> tally" where
  "row_failed i msg t =
     t\<lparr>errors := errors t @ [''Row '' @ show_nat (i + 1) @ '': '' @ msg],
       failedRecords := failedRecords t + 1\<rparr>"

text \<open>The body of the loop for the row with index \<open>i\<close>.\<close>

definition import_row :: "env \<Rightarrow> string \<Rightarrow> nat \<Rightarrow> row \<Rightarrow> tally \<Rightarrow> tally" where
  "import_row e school i r t =
     (if \<not> truthy (row_get r ''Student Name'') \<or> \<not> truthy (row_get r ''SRN No'') \<or>
         \<not> truthy (row_get r ''Class'') \<or> \<not> truthy (row_get r ''Section'') \<or>
         \<not> truthy (row_get r ''Date of Birth'')
      then row_failed i ''Missing required fields'' t
      else
        case validateSRN (\<lambda>s. students_policy e (school_id s)) (db t) (lookup_fault e i)
               (row_get r ''SRN No'') school of
          Threw m \<Rightarrow> row_failed i m t
        | Returned False \<Rightarrow>
            row_failed i (''SRN '' @ toString (row_get r ''SRN No'') @ '' already exists'') t
        | Returned True \<Rightarrow>
            (case parse_date e (row_get r ''Date of Birth'') of
               None \<Rightarrow> row_failed i ''Invalid date format for Date of Birth'' t
             | Some dateOfBirth \<Rightarrow>
                 (case insert_student (\<lambda>s. students_policy e (school_id s)) (insert_fault e i)
                         \<lparr>school_id = school,
                          srn_no = trim (toString (row_get r ''SRN No'')),
                          student_name = trim (toString (row_get r ''Student Name'')),
                          student_class = trim (toString (row_get r ''Class'')),
                          student_section = trim (toString (row_get r ''Section'')),
                          date_of_birth = dateOfBirth,
                          photo_url = None,
                          registration_date = now e i\<rparr>
                         (db t) of
                    Threw m \<Rightarrow> row_failed i m t
                  | Returned (Some m, db') \<Rightarrow> row_failed i m (t\<lparr>db := db'\<rparr>)
                  | Returned (None, db') \<Rightarrow>
                      t\<lparr>db := db', successfulRecords := successfulRecords t + 1\<rparr>)))"

text \<open>The loop \<open>for (let i = 0; i < importData.length; i++)\<close>, from index \<open>i\<close> on.\<close>

fun import_loop :: "env \<Rightarrow> string \<Rightarrow> nat \<Rightarrow> row list \<Rightarrow> tally \<Rightarrow> tally" where
  "import_loop e school i [] t = t"
| "import_loop e school i (r # rs) t = import_loop e school (Suc i) rs (import_row e school i r t)"

text \<open>\<open>importStudents\<close>\<close>

definition importStudents :: "env \<Rightarrow> world \<Rightarrow> world" where
  "importStudents e w =
     (if selectedSchool w = [] then toast_add (Error ''Please select a school'') w
      else if length (importData w) = 0 then toast_add (Error ''Please upload an Excel file first'') w
      else
        let w1 = w\<lparr>importing := True, results := None\<rparr>;
            totalRecords = length (importData w)
        in case getUser e of
             Threw m \<Rightarrow> (toast_add (Error (''Import process failed: '' @ m)) w1)\<lparr>importing := False\<rparr>
           | Returned user \<Rightarrow>
               (let t = import_loop e (selectedSchool w) 0 (importData w)
                          \<lparr>db = students w, successfulRecords = 0, failedRecords = 0, errors = []\<rparr>;
                    w2 = w1\<lparr>students := db t\<rparr>;
                    logged =
                      (case user of
                         None \<Rightarrow> Returned (None, import_logs w)
                       | Some uid \<Rightarrow>
                           insert_log (logs_policy e) (log_fault e)
                             \<lparr>user_id = uid,
                              filename = (case file_name w of None \<Rightarrow> ''unknown''
                                          | Some n \<Rightarrow> if n = [] then ''unknown'' else n),
                              total_records = totalRecords,
                              successful_records = successfulRecords t,
                              failed_records = failedRecords t,
                              log_errors = (if length (errors t) > 0 then Some (join [CHR 0x0A] (errors t)) else None)\<rparr>
                             (import_logs w))
                in case logged of
                     Threw m \<Rightarrow> (toast_add (Error (''Import process failed: '' @ m)) w2)\<lparr>importing := False\<rparr>
                   | Returned (_, logs') \<Rightarrow>
                       (let w3 = w2\<lparr>import_logs := logs',
                                    results := Some \<lparr>total = totalRecords, successful = successfulRecords t,
                                                     failed = failedRecords t, error_list = errors t\<rparr>\<rparr>;
                            w4 = (if successfulRecords t > 0
                                  then (toast_add (Success (''Successfully imported '' @ show_nat (successfulRecords t) @ '' students'')) w3)
                                         \<lparr>completions := completions w3 + 1\<rparr>
                                  else w3);
                            w5 = (if failedRecords t > 0
                                  then toast_add (Warning (show_nat (failedRecords t) @ '' records failed to import'')) w4
                                  else w4)
                        in w5\<lparr>importing := False\<rparr>)))"

text \<open>\<open>clearImport\<close>\<close>

definition clearImport :: "world \<Rightarrow> world" where
  "clearImport w = w\<lparr>importData := [], results := None, file_name := None\<rparr>"

section \<open>The exporters (SchoolDashboard, AdminDashboard)\<close>

text \<open>
  A worksheet as the spreadsheet library keeps it: the cells that exist, each at its
  (row, column) address counted from 0, and the last address of the sheet's range.
  The value of a stub cell is \<open>undefined\<close>.
\<close>

record worksheet =
  cells :: "((nat \<times> nat) \<times> jsval) list"
  ref_last :: "nat \<times> nat"

record workbook =
  SheetNames :: "string list"
  Sheets :: "(string \<times> worksheet) list"

text \<open>
  \<open>XLSX.utils.json_to_sheet(js)\<close> with no options, as the library computes it: the
  header is collected from the keys of the row objects, in the order in which they first
  occur; every key of object \<open>R\<close> gives a cell in row \<open>R + 1\<close>, in the column of the key;
  then one string cell per collected key is written into row 0. No label comes from
  anywhere else.
\<close>

definition add_key :: "string list \<Rightarrow> string \<Rightarrow> string list" where
  "add_key hdr k = (if k \<in> set hdr then hdr else hdr @ [k])"

definition json_header :: "row list \<Rightarrow> string list" where
  "json_header js = foldl (\<lambda>hdr r. foldl add_key hdr (map fst r)) [] js"

definition column_of :: "string list \<Rightarrow> string \<Rightarrow> nat" where
  "column_of hdr k = length (takeWhile (\<lambda>h. h \<noteq> k) hdr)"

definition json_to_sheet :: "row list \<Rightarrow> worksheet" where
  "json_to_sheet js =
     (let hdr = json_header js in
      \<lparr>cells =
         concat (map (\<lambda>(R, r). map (\<lambda>(k, v). ((R + 1, column_of hdr k), v)) r) (enumerate 0 js)) @
         map (\<lambda>C. ((0, C), Str (hdr ! C))) [0..<length hdr],
       ref_last = (length js, length hdr - 1)\<rparr>)"

definition book_new :: workbook where
  "book_new = \<lparr>SheetNames = [], Sheets = []\<rparr>"

text \<open>\<open>XLSX.utils.book_append_sheet\<close>; it throws where the book has a sheet of that name.\<close>

definition book_append_sheet :: "workbook \<Rightarrow> worksheet \<Rightarrow> string \<Rightarrow> workbook reply" where
  "book_append_sheet wb ws nm =
     (if nm \<in> set (SheetNames wb) then Threw (''Worksheet with name |'' @ nm @ ''| already exists!'')
      else Returned (wb\<lparr>SheetNames := SheetNames wb @ [nm], Sheets := Sheets wb @ [(nm, ws)]\<rparr>))"

text \<open>
  The platform of an export: the rendering \<open>new Date(d).toLocaleDateString()\<close> of a stored
  registration date, and \<open>new Date().toISOString().split('T')[0]\<close>.
\<close>

record platform =
  toLocaleDateString :: "string \<Rightarrow> string"
  today :: string

text \<open>
  What an export hands to \<open>XLSX.writeFile\<close> (the file name and the book), and the
  toast that follows.
\<close>

type_synonym download = "string \<times> workbook"

definition write_students :: "row list \<Rightarrow> string \<Rightarrow> (download \<times> toast) reply" where
  "write_students exportData fname =
     (let ws = json_to_sheet exportData; wb = book_new in
      case book_append_sheet wb ws ''Students'' of
        Threw m \<Rightarrow> Threw m
      | Returned wb' \<Rightarrow> Returned ((fname, wb'), Success ''Excel file downloaded successfully!''))"

text \<open>
  \<open>exportToExcel\<close> of the school dashboard. \<open>school_name\<close> and \<open>block_name\<close> are
  \<open>userProfile?.school?.name\<close> and \<open>userProfile?.school?.block?.name\<close>.
\<close>

record profile =
  school_name :: jsval
  block_name :: jsval

definition school_row :: "platform \<Rightarrow> profile \<Rightarrow> student \<Rightarrow> row" where
  "school_row pf userProfile s =
     [(''Student Name'', Str (student_name s)),
      (''SRN No'', Str (srn_no s)),
      (''Class'', Str (student_class s)),
      (''Section'', Str (student_section s)),
      (''Date of Birth'', Str (date_of_birth s)),
      (''School'', school_name userProfile),
      (''Block'', block_name userProfile),
      (''Registration Date'', Str (toLocaleDateString pf (registration_date s))),
      (''Photo Filename'',
         Str (case photo_url s of
                None \<Rightarrow> ''No photo''
              | Some u \<Rightarrow> if u = [] then ''No photo'' else srn_no s @ ''.jpg''))]"

definition exportToExcel_school :: "platform \<Rightarrow> profile \<Rightarrow> student list \<Rightarrow> (download \<times> toast) reply" where
  "exportToExcel_school pf userProfile studs =
     write_students (map (school_row pf userProfile) studs)
       (toString (school_name userProfile) @ ''_students_'' @ today pf @ ''.xlsx'')"

text \<open>
  \<open>exportToExcel\<close> of the admin dashboard; its records carry the names of the school, block,
  district and state they were joined with (\<open>student.school?.name\<close> and so on).
\<close>

record joined_student = student +
  joined_school :: jsval
  joined_block :: jsval
  joined_district :: jsval
  joined_state :: jsval

definition admin_row :: "platform \<Rightarrow> joined_student \<Rightarrow> row" where
  "admin_row pf s =
     [(''Student Name'', Str (student_name s)),
      (''SRN No'', Str (srn_no s)),
      (''Class'', Str (student_class s)),
      (''Section'', Str (student_section s)),
      (''Date of Birth'', Str (date_of_birth s)),
      (''School'', joined_school s),
      (''Block'', joined_block s),
      (''District'', joined_district s),
      (''State'', joined_state s),
      (''Registration Date'', Str (toLocaleDateString pf (registration_date s)))]"

definition exportToExcel_admin :: "platform \<Rightarrow> joined_student list \<Rightarrow> (download \<times> toast) reply" where
  "exportToExcel_admin pf studs =
     write_students (map (admin_row pf) studs) (''students_export_'' @ today pf @ ''.xlsx'')"

section \<open>Notions used to state the properties\<close>

text \<open>The variables of the loop when \<open>importStudents\<close> has run over all loaded rows.\<close>

definition run_tally :: "env \<Rightarrow> world \<Rightarrow> tally" where
  "run_tally e w = import_loop e (selectedSchool w) 0 (importData w)
      \<lparr>db = students w, successfulRecords = 0, failedRecords = 0, errors = []\<rparr>"

text \<open>The external id is unique within each owning school.\<close>

definition srn_unique :: "student list \<Rightarrow> bool" where
  "srn_unique d = distinct (map (\<lambda>s. (school_id s, srn_no s)) d)"

text \<open>
  The row objects read from a sheet carry keys of the sheet's header row only: a key of a
  row object is the header cell of the column the value stands in.
\<close>

definition keyed_by :: "string list \<Rightarrow> row list \<Rightarrow> bool" where
  "keyed_by header jsonData = list_all (\<lambda>r. list_all (\<lambda>k. k \<in> set header) (map fst r)) jsonData"

text \<open>The row passes the check of the required fields.\<close>

definition required_present :: "row \<Rightarrow> bool" where
  "required_present r = (truthy (row_get r ''Student Name'') \<and> truthy (row_get r ''SRN No'') \<and>
     truthy (row_get r ''Class'') \<and> truthy (row_get r ''Section'') \<and> truthy (row_get r ''Date of Birth''))"

text \<open>None of the five exported fields of a stored record is the empty string.\<close>

definition nonempty_fields :: "student \<Rightarrow> bool" where
  "nonempty_fields s = (student_name s \<noteq> [] \<and> srn_no s \<noteq> [] \<and> student_class s \<noteq> [] \<and>
     student_section s \<noteq> [] \<and> date_of_birth s \<noteq> [])"

text \<open>The error recorded for the exported row of record \<open>s\<close> when it is imported again as row \<open>i\<close>.\<close>

definition reimport_error :: "nat \<Rightarrow> student \<Rightarrow> string" where
  "reimport_error i s = ''Row '' @ show_nat (i + 1) @ '': '' @
     (if nonempty_fields s then ''SRN '' @ srn_no s @ '' already exists'' else ''Missing required fields'')"


section \<open>Concrete inputs\<close>

text \<open>The two rows of \<open>downloadTemplate\<close>.\<close>

definition template :: "row list" where
  "template =
     [[(''Student Name'', Str ''John Doe''), (''SRN No'', Str ''SRN001''), (''Class'', Str ''10''),
       (''Section'', Str ''A''), (''Date of Birth'', Str ''2005-05-15'')],
      [(''Student Name'', Str ''Jane Smith''), (''SRN No'', Str ''SRN002''), (''Class'', Str ''10''),
       (''Section'', Str ''B''), (''Date of Birth'', Str ''2005-03-20'')]]"

text \<open>A row with the given name, external id and section, in class 10, born 2005-05-15.\<close>

definition pupil :: "string \<Rightarrow> string \<Rightarrow> string \<Rightarrow> row" where
  "pupil n srn sec =
     [(''Student Name'', Str n), (''SRN No'', Str srn), (''Class'', Num ''10''),
      (''Section'', Str sec), (''Date of Birth'', Str ''2005-05-15'')]"

text \<open>The stored record with the given name, external id and section in school \<open>school-1\<close>.\<close>

definition stored :: "string \<Rightarrow> string \<Rightarrow> string \<Rightarrow> student" where
  "stored n srn sec =
     \<lparr>school_id = ''school-1'', srn_no = srn, student_name = n, student_class = ''10'',
      student_section = sec, date_of_birth = ''2005-05-15'', photo_url = None,
      registration_date = ''2025-09-05T05:21:55.000Z''\<rparr>"

text \<open>
  A date parser that knows the two dates of the template, which are dates in ISO format and
  are returned as they are; everything else is no date.
\<close>

definition demo_parse_date :: "jsval \<Rightarrow> string option" where
  "demo_parse_date v =
     (case v of
        Str s \<Rightarrow> if s = ''2005-05-15'' \<or> s = ''2005-03-20'' then Some s else None
      | _ \<Rightarrow> None)"

text \<open>A signed-in admin and a backend without faults.\<close>

definition demo_env :: env where
  "demo_env =
     \<lparr>getUser = Returned (Some ''user-1''),
      profile_role = Some Admin,
      profile_school = None,
      lookup_fault = (\<lambda>i. NoFault),
      insert_fault = (\<lambda>i. NoFault),
      log_fault = NoFault,
      now = (\<lambda>i. ''2025-09-05T05:21:55.000Z''),
      parse_date = demo_parse_date\<rparr>"

text \<open>The component after school \<open>school-1\<close> was selected, with empty tables.\<close>

definition demo_world :: world where
  "demo_world =
     \<lparr>selectedSchool = ''school-1'', importData = [], importing = False, results = None,
      file_name = None, toasts = [], completions = 0, students = [], import_logs = []\<rparr>"

definition demo_platform :: platform where
  "demo_platform = \<lparr>toLocaleDateString = (\<lambda>d. take 10 d), today = ''2025-09-05''\<rparr>"

definition demo_profile :: profile where
  "demo_profile = \<lparr>school_name = Str ''Hill School'', block_name = Str ''North''\<rparr>"

text \<open>Loading the rows of a file named \<open>students.xlsx\<close> into a world.\<close>

definition load :: "row list \<Rightarrow> world \<Rightarrow> world" where
  "load rs w = handleFileSelect (Some (''students.xlsx'', ReadRows rs)) w"

text \<open>
  The scenario of a three-row file whose second row has an empty name, the file with a
  Section cell that holds one space in its second row, the file whose two rows carry the same external id
  with a leading space, and a file without the column Date of Birth.
\<close>

definition three_rows :: "row list" where
  "three_rows =
     [pupil ''John Doe'' ''SRN001'' ''A'', pupil [] ''SRN002'' ''A'', pupil ''Jane Smith'' ''SRN003'' ''B'']"

definition blank_section_file :: "row list" where
  "blank_section_file = [pupil ''John Doe'' ''SRN001'' ''A'', pupil ''Jane Smith'' ''SRN002'' '' '']"

definition padded_file :: "row list" where
  "padded_file = [pupil ''John Doe'' '' SRN001'' ''A'', pupil ''Jane Smith'' '' SRN001'' ''B'']"

definition undated_header :: "string list" where
  "undated_header = [''Student Name'', ''SRN No'', ''Class'', ''Section'']"

definition undated_file :: "row list" where
  "undated_file =
     [[(''Student Name'', Str ''John Doe''), (''SRN No'', Str ''SRN001''), (''Class'', Str ''10''),
       (''Section'', Str ''A'')]]"


text \<open>The world after the file with the blank Section cell was imported.\<close>

definition after_blank_import :: world where
  "after_blank_import = importStudents demo_env (load blank_section_file demo_world)"


definition failing_lookup_env :: env where
  "failing_lookup_env = demo_env\<lparr>lookup_fault := (\<lambda>i. if i = 0 then Fails ''connection lost'' else NoFault)\<rparr>"

section \<open>Facts about the store and the loop\<close>

lemma insert_student_db:
  "insert_student allowed f new d = Returned (m, d') \<Longrightarrow>
     (m = None \<and> d' = d @ [new] \<and> \<not> list_ex (\<lambda>s. school_id s = school_id new \<and> srn_no s = srn_no new) d)
     \<or> (m \<noteq> None \<and> d' = d)"
  by (auto simp: insert_student_def split: fault.splits if_splits)

text \<open>A row either fails, leaving the table as it is, or adds one record of the target school.\<close>

lemma import_row_step:
  "(\<exists>msg. import_row e school i r t = row_failed i msg t) \<or>
   (\<exists>new. import_row e school i r t = t\<lparr>db := db t @ [new], successfulRecords := successfulRecords t + 1\<rparr>
      \<and> school_id new = school
      \<and> \<not> list_ex (\<lambda>s. school_id s = school_id new \<and> srn_no s = srn_no new) (db t))"
  unfolding import_row_def
  by (auto split: reply.splits bool.splits option.splits prod.splits dest!: insert_student_db)

lemma import_row_counts:
  "(successfulRecords (import_row e school i r t) = successfulRecords t + 1 \<and>
    failedRecords (import_row e school i r t) = failedRecords t \<and>
    errors (import_row e school i r t) = errors t) \<or>
   (successfulRecords (import_row e school i r t) = successfulRecords t \<and>
    failedRecords (import_row e school i r t) = failedRecords t + 1 \<and>
    length (errors (import_row e school i r t)) = length (errors t) + 1)"
  using import_row_step [of e school i r t] by (auto simp: row_failed_def)

lemma import_loop_counts:
  "successfulRecords (import_loop e school i rs t) + failedRecords (import_loop e school i rs t)
     = successfulRecords t + failedRecords t + length rs
   \<and> length (errors (import_loop e school i rs t)) + failedRecords t
     = length (errors t) + failedRecords (import_loop e school i rs t)"
proof (induction rs arbitrary: i t)
  case Nil
  show ?case by simp
next
  case (Cons r rs)
  from import_row_counts [of e school i r t] Cons [of "Suc i" "import_row e school i r t"]
  show ?case by auto
qed


lemma toast_add_fields [simp]:
  "students (toast_add x w) = students w"
  "import_logs (toast_add x w) = import_logs w"
  "results (toast_add x w) = results w"
  "importData (toast_add x w) = importData w"
  "selectedSchool (toast_add x w) = selectedSchool w"
  "file_name (toast_add x w) = file_name w"
  "completions (toast_add x w) = completions w"
  by (simp_all add: toast_add_def)

text \<open>What a run that passes the two guards leaves in the results, the table and the log.\<close>

lemma importStudents_results:
  assumes "selectedSchool w \<noteq> []" and "importData w \<noteq> []"
  shows "results (importStudents e w) =
     (case getUser e of
        Threw m \<Rightarrow> None
      | Returned user \<Rightarrow>
          if user \<noteq> None \<and> (\<exists>m. log_fault e = Throws m) then None
          else Some \<lparr>total = length (importData w), successful = successfulRecords (run_tally e w),
                      failed = failedRecords (run_tally e w), error_list = errors (run_tally e w)\<rparr>)"
  using assms
  by (auto simp: importStudents_def run_tally_def Let_def insert_log_def logs_policy_def auth_uid_def
           split: reply.splits option.splits fault.splits prod.splits)

lemma importStudents_students:
  assumes "selectedSchool w \<noteq> []" and "importData w \<noteq> []"
  shows "students (importStudents e w) =
     (case getUser e of Threw m \<Rightarrow> students w | Returned user \<Rightarrow> db (run_tally e w))"
  using assms
  by (auto simp: importStudents_def run_tally_def Let_def insert_log_def logs_policy_def auth_uid_def
           split: reply.splits option.splits fault.splits prod.splits)


lemma importStudents_guarded:
  assumes "selectedSchool w = [] \<or> importData w = []"
  shows "\<exists>msg. importStudents e w = toast_add (Error msg) w"
  using assms by (auto simp: importStudents_def)

text \<open>When \<open>handleFileSelect\<close> loads the rows of a file, and when it leaves the loaded rows.\<close>

lemma handleFileSelect_accepts:
  assumes "list_all (\<lambda>col. has_key col firstRow) requiredColumns"
  shows "importData (handleFileSelect (Some (fname, ReadRows (firstRow # rest))) w) = firstRow # rest"
  using assms by (auto simp: handleFileSelect_def Let_def list_all_iff filter_empty_conv)



lemma missing_first_row_key:
  assumes "keyed_by header (r # rs)" and "col \<in> set requiredColumns" and "col \<notin> set header"
  shows "filter (\<lambda>c. \<not> has_key c r) requiredColumns \<noteq> []"
proof -
  from assms(1,3) have "\<not> has_key col r"
    by (auto simp: keyed_by_def has_key_def list_all_iff)
  with assms(2) have "col \<in> set (filter (\<lambda>c. \<not> has_key c r) requiredColumns)" by simp
  then show ?thesis by (metis empty_iff empty_set)
qed


lemma handleFileSelect_store:
  "students (handleFileSelect ev w) = students w \<and> import_logs (handleFileSelect ev w) = import_logs w"
  by (auto simp: handleFileSelect_def Let_def split: option.splits prod.splits read_result.splits list.splits)

lemma handleFileSelect_school: "selectedSchool (handleFileSelect ev w) = selectedSchool w"
  by (auto simp: handleFileSelect_def Let_def split: option.splits prod.splits read_result.splits list.splits)

lemma students_policy_signed_in:
  "students_policy e sid \<Longrightarrow> \<exists>uid. getUser e = Returned (Some uid)"
  by (auto simp: students_policy_def auth_uid_def split: option.splits reply.splits)

text \<open>
  A row with all required fields whose lookup returns an error, or finds a record that the
  session may see, is recorded with the message of an existing SRN, and nothing else
  changes.
\<close>

lemma existing_srn_row:
  assumes "required_present r"
    and "lookup_fault e i = Fails m \<or>
         (lookup_fault e i = NoFault \<and> students_policy e school \<and>
          list_ex (\<lambda>s. srn_no s = toString (row_get r ''SRN No'') \<and> school_id s = school) (db t))"
  shows "import_row e school i r t
           = t\<lparr>errors := errors t @ [''Row '' @ show_nat (i + 1) @ '': SRN '' @
                                       toString (row_get r ''SRN No'') @ '' already exists''],
                failedRecords := failedRecords t + 1\<rparr>"
proof -
  have "validateSRN (\<lambda>s. students_policy e (school_id s)) (db t) (lookup_fault e i)
          (row_get r ''SRN No'') school = Returned False"
    using assms(2)
  proof
    assume "lookup_fault e i = Fails m"
    then show ?thesis by (simp add: validateSRN_def select_srn_def)
  next
    assume h: "lookup_fault e i = NoFault \<and> students_policy e school \<and>
          list_ex (\<lambda>s. srn_no s = toString (row_get r ''SRN No'') \<and> school_id s = school) (db t)"
    then have "filter (\<lambda>s. students_policy e (school_id s) \<and>
                 srn_no s = toString (row_get r ''SRN No'') \<and> school_id s = school) (db t) \<noteq> []"
      by (auto simp: list_ex_iff filter_empty_conv)
    with h show ?thesis
      by (auto simp: validateSRN_def select_srn_def maybeSingle_def split: list.splits)
  qed
  with assms(1) show ?thesis
    by (simp add: import_row_def required_present_def row_failed_def)
qed

section \<open>The claims\<close>

subsection \<open>C1: the two counters add up to the number of rows\<close>

text \<open>
  Claim C1. A run of \<open>importStudents\<close> over the loaded rows that displays an outcome
  displays one with \<open>successful + failed = total\<close>, where \<open>total\<close> is the number of
  loaded rows; a run displays an outcome whenever \<open>getUser\<close> returns and the log insert
  does not throw; and the body of the loop adds one to exactly one of the two counters.
\<close>

theorem import_counts_add_up:
  assumes "selectedSchool w \<noteq> []" and "importData w \<noteq> []"
  shows "(\<forall>r. results (importStudents e w) = Some r \<longrightarrow>
            successful r + failed r = total r \<and> total r = length (importData w))
       \<and> ((\<exists>u. getUser e = Returned u) \<and> (\<forall>m. log_fault e \<noteq> Throws m) \<longrightarrow>
            results (importStudents e w) \<noteq> None)
       \<and> (\<forall>i r t.
            (successfulRecords (import_row e (selectedSchool w) i r t) = successfulRecords t + 1 \<and>
             failedRecords (import_row e (selectedSchool w) i r t) = failedRecords t) \<or>
            (successfulRecords (import_row e (selectedSchool w) i r t) = successfulRecords t \<and>
             failedRecords (import_row e (selectedSchool w) i r t) = failedRecords t + 1))"
proof -
  have sum: "successfulRecords (run_tally e w) + failedRecords (run_tally e w) = length (importData w)"
    using import_loop_counts [of e "selectedSchool w" 0 "importData w"]
    by (simp add: run_tally_def)
  have a: "\<forall>r. results (importStudents e w) = Some r \<longrightarrow>
            successful r + failed r = total r \<and> total r = length (importData w)"
    using sum by (auto simp: importStudents_results [OF assms] split: reply.splits if_splits)
  have b: "(\<exists>u. getUser e = Returned u) \<and> (\<forall>m. log_fault e \<noteq> Throws m) \<longrightarrow>
            results (importStudents e w) \<noteq> None"
    by (auto simp: importStudents_results [OF assms])
  have c: "\<forall>i r t.
            (successfulRecords (import_row e (selectedSchool w) i r t) = successfulRecords t + 1 \<and>
             failedRecords (import_row e (selectedSchool w) i r t) = failedRecords t) \<or>
            (successfulRecords (import_row e (selectedSchool w) i r t) = successfulRecords t \<and>
             failedRecords (import_row e (selectedSchool w) i r t) = failedRecords t + 1)"
    using import_row_counts by blast
  from a b c show ?thesis by blast
qed

theorem import_counts_add_up_witness:
  "selectedSchool (load three_rows demo_world) \<noteq> []
   \<and> importData (load three_rows demo_world) \<noteq> []
   \<and> results (importStudents demo_env (load three_rows demo_world))
       = Some \<lparr>total = 3, successful = 2, failed = 1, error_list = [''Row 2: Missing required fields'']\<rparr>
   \<and> (\<exists>r. results (importStudents demo_env (load three_rows demo_world)) = Some r
          \<and> successful r + failed r = total r \<and> total r = 3)"
proof -
  have h1: "selectedSchool (load three_rows demo_world) \<noteq> []" by code_simp
  have h2: "importData (load three_rows demo_world) \<noteq> []" by code_simp
  have len: "length (importData (load three_rows demo_world)) = 3" by code_simp
  have ev: "results (importStudents demo_env (load three_rows demo_world))
       = Some \<lparr>total = 3, successful = 2, failed = 1, error_list = [''Row 2: Missing required fields'']\<rparr>"
    by code_simp
  from import_counts_add_up [OF h1 h2, of demo_env] ev len
  have "\<exists>r. results (importStudents demo_env (load three_rows demo_world)) = Some r
          \<and> successful r + failed r = total r \<and> total r = 3"
    by auto
  with h1 h2 ev show ?thesis by blast
qed

subsection \<open>C2: a file without a required column is rejected\<close>

text \<open>
  Claim C2. When the header row of the sheet lacks one of the required columns,
  \<open>handleFileSelect\<close> only shows an error: the loaded rows and both tables stay as they
  were, so no row of the file is processed; and \<open>importStudents\<close> on a component that
  had nothing loaded before inserts no student.
\<close>

theorem missing_header_rejects_file:
  assumes "keyed_by header jsonData" and "\<exists>col \<in> set requiredColumns. col \<notin> set header"
  shows "(\<exists>msg. handleFileSelect (Some (fname, ReadRows jsonData)) w
                 = toast_add (Error msg) (w\<lparr>file_name := Some fname\<rparr>))
       \<and> (importData w = [] \<longrightarrow>
            students (importStudents e (handleFileSelect (Some (fname, ReadRows jsonData)) w)) = students w)"
proof -
  have rej: "\<exists>msg. handleFileSelect (Some (fname, ReadRows jsonData)) w
                 = toast_add (Error msg) (w\<lparr>file_name := Some fname\<rparr>)"
  proof (cases jsonData)
    case Nil
    then show ?thesis by (simp add: handleFileSelect_def) blast
  next
    case (Cons r rs)
    from assms obtain col where "col \<in> set requiredColumns" "col \<notin> set header" by blast
    with assms(1) Cons have "filter (\<lambda>c. \<not> has_key c r) requiredColumns \<noteq> []"
      using missing_first_row_key by blast
    with Cons show ?thesis by (simp add: handleFileSelect_def Let_def) blast
  qed
  moreover have "importData w = [] \<longrightarrow>
            students (importStudents e (handleFileSelect (Some (fname, ReadRows jsonData)) w)) = students w"
  proof
    assume empty: "importData w = []"
    from rej obtain msg where h: "handleFileSelect (Some (fname, ReadRows jsonData)) w
                 = toast_add (Error msg) (w\<lparr>file_name := Some fname\<rparr>)" by blast
    have "importData (toast_add (Error msg) (w\<lparr>file_name := Some fname\<rparr>)) = []"
      using empty by simp
    then obtain msg' where "importStudents e (toast_add (Error msg) (w\<lparr>file_name := Some fname\<rparr>))
        = toast_add (Error msg') (toast_add (Error msg) (w\<lparr>file_name := Some fname\<rparr>))"
      using importStudents_guarded by blast
    with h show "students (importStudents e (handleFileSelect (Some (fname, ReadRows jsonData)) w)) = students w"
      by simp
  qed
  ultimately show ?thesis by blast
qed

theorem missing_header_rejects_file_witness:
  "keyed_by undated_header undated_file
   \<and> (\<exists>col \<in> set requiredColumns. col \<notin> set undated_header)
   \<and> handleFileSelect (Some (''students.xlsx'', ReadRows undated_file)) demo_world
       = toast_add (Error ''Missing required columns: Date of Birth'')
           (demo_world\<lparr>file_name := Some ''students.xlsx''\<rparr>)
   \<and> students (importStudents demo_env
        (handleFileSelect (Some (''students.xlsx'', ReadRows undated_file)) demo_world)) = students demo_world"
proof -
  have h1: "keyed_by undated_header undated_file" by code_simp
  have h2: "\<exists>col \<in> set requiredColumns. col \<notin> set undated_header" by code_simp
  have h3: "importData demo_world = []" by (simp add: demo_world_def)
  have ev: "handleFileSelect (Some (''students.xlsx'', ReadRows undated_file)) demo_world
       = toast_add (Error ''Missing required columns: Date of Birth'')
           (demo_world\<lparr>file_name := Some ''students.xlsx''\<rparr>)"
    by code_simp
  from missing_header_rejects_file [OF h1 h2, of "''students.xlsx''" demo_world demo_env] h3
  have "students (importStudents demo_env
        (handleFileSelect (Some (''students.xlsx'', ReadRows undated_file)) demo_world)) = students demo_world"
    by blast
  with h1 h2 ev show ?thesis by blast
qed

subsection \<open>C3: importing an export of stored records again\<close>

lemma school_row_get [simp]:
  "row_get (school_row pf prof s) ''Student Name'' = Str (student_name s)"
  "row_get (school_row pf prof s) ''SRN No'' = Str (srn_no s)"
  "row_get (school_row pf prof s) ''Class'' = Str (student_class s)"
  "row_get (school_row pf prof s) ''Section'' = Str (student_section s)"
  "row_get (school_row pf prof s) ''Date of Birth'' = Str (date_of_birth s)"
  by (simp_all add: school_row_def row_get_def)

lemma school_row_required: "required_present (school_row pf prof s) = nonempty_fields s"
  by (simp add: required_present_def nonempty_fields_def)

lemma school_row_loadable: "list_all (\<lambda>col. has_key col (school_row pf prof s)) requiredColumns"
  by (simp add: requiredColumns_def has_key_def school_row_def)

lemma reimport_row:
  assumes "s \<in> set (db t)" and "school_id s = school" and "\<forall>m. lookup_fault e i \<noteq> Throws m"
    and "students_policy e school"
  shows "import_row e school i (school_row pf prof s) t
           = t\<lparr>errors := errors t @ [reimport_error i s], failedRecords := failedRecords t + 1\<rparr>"
proof (cases "nonempty_fields s")
  case False
  then have "\<not> required_present (school_row pf prof s)" by (simp add: school_row_required)
  then show ?thesis using False
    by (simp add: import_row_def required_present_def row_failed_def reimport_error_def)
next
  case True
  then have rp: "required_present (school_row pf prof s)" by (simp add: school_row_required)
  have found: "list_ex (\<lambda>x. srn_no x = toString (row_get (school_row pf prof s) ''SRN No'') \<and> school_id x = school) (db t)"
    using assms(1,2) by (auto simp: list_ex_iff)
  from assms(3) have "(\<exists>m. lookup_fault e i = Fails m) \<or> lookup_fault e i = NoFault"
    by (cases "lookup_fault e i") auto
  then obtain m where "lookup_fault e i = Fails m \<or>
         (lookup_fault e i = NoFault \<and> students_policy e school \<and>
          list_ex (\<lambda>x. srn_no x = toString (row_get (school_row pf prof s) ''SRN No'') \<and> school_id x = school) (db t))"
    using found assms(4) by blast
  from existing_srn_row [OF rp this] True show ?thesis
    by (simp add: reimport_error_def)
qed

lemma reimport_loop:
  assumes "\<forall>s \<in> set studs. s \<in> set (db t) \<and> school_id s = school"
    and "\<forall>i m. lookup_fault e i \<noteq> Throws m"
    and "students_policy e school"
  shows "import_loop e school i (map (school_row pf prof) studs) t
           = t\<lparr>errors := errors t @ map (\<lambda>(j, s). reimport_error j s) (enumerate i studs),
                failedRecords := failedRecords t + length studs\<rparr>"
  using assms(1)
proof (induction studs arbitrary: i t)
  case Nil
  show ?case by simp
next
  case (Cons s studs)
  let ?t = "t\<lparr>errors := errors t @ [reimport_error i s], failedRecords := failedRecords t + 1\<rparr>"
  have step: "import_row e school i (school_row pf prof s) t = ?t"
    using Cons.prems assms(2,3) by (intro reimport_row) auto
  have "\<forall>x \<in> set studs. x \<in> set (db ?t) \<and> school_id x = school"
    using Cons.prems by simp
  from Cons.IH [OF this, of "Suc i"] step show ?case by simp
qed

text \<open>
  In any session the exported row of a stored record of the target school fails: where
  the policies admit the session the lookup finds the record, and where they do not the
  insert is refused.
\<close>

lemma reimport_row_fails:
  assumes "s \<in> set (db t)" and "school_id s = school"
  shows "\<exists>msg. import_row e school i (school_row pf prof s) t = row_failed i msg t"
proof (cases "students_policy e school")
  case True
  have found: "filter (\<lambda>x. students_policy e (school_id x) \<and> srn_no x = srn_no s \<and> school_id x = school) (db t) \<noteq> []"
    using assms True by (auto simp: filter_empty_conv)
  show ?thesis
    unfolding import_row_def using found
    by (auto simp: validateSRN_def select_srn_def maybeSingle_def
             split: fault.splits list.splits)
next
  case False
  have refused: "insert_student (\<lambda>x. students_policy e (school_id x)) f new (db t) \<noteq> Returned (None, b)"
    if "school_id new = school" for f new b
    using that False by (auto simp: insert_student_def split: fault.splits)
  have kept: "b = db t"
    if "insert_student (\<lambda>x. students_policy e (school_id x)) f new (db t) = Returned (Some m, b)" for f new m b
    using that by (auto simp: insert_student_def split: fault.splits if_splits)
  show ?thesis
    unfolding import_row_def
    by (auto split: reply.splits bool.splits option.splits prod.splits dest!: kept simp: refused)
qed

lemma reimport_loop_fails:
  assumes "\<forall>s \<in> set studs. s \<in> set (db t) \<and> school_id s = school"
  shows "\<exists>msgs. length msgs = length studs \<and>
           import_loop e school i (map (school_row pf prof) studs) t
             = t\<lparr>errors := errors t @ msgs, failedRecords := failedRecords t + length studs\<rparr>"
  using assms
proof (induction studs arbitrary: i t)
  case Nil
  show ?case by simp
next
  case (Cons s studs)
  from Cons.prems obtain msg where
    step: "import_row e school i (school_row pf prof s) t = row_failed i msg t"
    using reimport_row_fails [of s t school e i pf prof] by auto
  have "\<forall>x \<in> set studs. x \<in> set (db (row_failed i msg t)) \<and> school_id x = school"
    using Cons.prems by (simp add: row_failed_def)
  from Cons.IH [OF this, of "Suc i"] obtain msgs where
    len: "length msgs = length studs" and
    rest: "import_loop e school (Suc i) (map (school_row pf prof) studs) (row_failed i msg t)
             = (row_failed i msg t)\<lparr>errors := errors (row_failed i msg t) @ msgs,
                  failedRecords := failedRecords (row_failed i msg t) + length studs\<rparr>"
    by blast
  have "length ((''Row '' @ show_nat (i + 1) @ '': '' @ msg) # msgs) = length (s # studs)"
    using len by simp
  moreover have "import_loop e school i (map (school_row pf prof) (s # studs)) t
      = t\<lparr>errors := errors t @ ((''Row '' @ show_nat (i + 1) @ '': '' @ msg) # msgs),
           failedRecords := failedRecords t + length (s # studs)\<rparr>"
    using step rest by (simp add: row_failed_def)
  ultimately show ?case by blast
qed

text \<open>
  Claim C3, as the code has it. Take stored records of the selected school, export them
  with the school dashboard and load and import the exported rows again, in a run where
  \<open>getUser\<close> returns and the log insert does not throw. Then no record is inserted and
  the outcome has \<open>successful = 0\<close> and one error per row. In the session of a
  signed-in user whom the policies of \<open>students\<close> admit for that school (an admin, or
  a user of the school itself), with lookups that do not throw, the error of a row is the
  message of an existing SRN for a record whose five exported fields are all non-empty,
  and the message of missing required fields for a record with an empty one.
\<close>

theorem reimport_of_export_inserts_nothing:
  assumes "selectedSchool w \<noteq> []" and "studs \<noteq> []"
    and "\<forall>s \<in> set studs. s \<in> set (students w) \<and> school_id s = selectedSchool w"
    and "getUser e = Returned u" and "\<forall>m. log_fault e \<noteq> Throws m"
  shows "students (importStudents e (handleFileSelect (Some (fname, ReadRows (map (school_row pf prof) studs))) w))
           = students w
       \<and> (\<exists>errs. length errs = length studs \<and>
            results (importStudents e (handleFileSelect (Some (fname, ReadRows (map (school_row pf prof) studs))) w))
              = Some \<lparr>total = length studs, successful = 0, failed = length studs, error_list = errs\<rparr>)
       \<and> (students_policy e (selectedSchool w) \<and> (\<forall>i m. lookup_fault e i \<noteq> Throws m) \<longrightarrow>
            results (importStudents e (handleFileSelect (Some (fname, ReadRows (map (school_row pf prof) studs))) w))
              = Some \<lparr>total = length studs, successful = 0, failed = length studs,
                       error_list = map (\<lambda>(i, s). reimport_error i s) (enumerate 0 studs)\<rparr>)"
proof -
  let ?rows = "map (school_row pf prof) studs"
  let ?w = "handleFileSelect (Some (fname, ReadRows ?rows)) w"
  let ?t0 = "\<lparr>db = students w, successfulRecords = 0, failedRecords = 0, errors = []\<rparr>"
  from assms(2) obtain s rest where studs: "studs = s # rest" by (cases studs) auto
  have loaded: "importData ?w = ?rows"
    using handleFileSelect_accepts [OF school_row_loadable [of pf prof s], of fname "map (school_row pf prof) rest" w]
    by (simp add: studs)
  have kept: "selectedSchool ?w = selectedSchool w" "students ?w = students w"
    by (simp_all add: handleFileSelect_school handleFileSelect_store)
  have g: "selectedSchool ?w \<noteq> []" "importData ?w \<noteq> []"
    using assms(1,2) loaded kept by simp_all
  have run: "run_tally e ?w = import_loop e (selectedSchool w) 0 ?rows ?t0"
    by (simp add: run_tally_def loaded kept)
  have stored: "\<forall>s \<in> set studs. s \<in> set (db ?t0) \<and> school_id s = selectedSchool w"
    using assms(3) by simp
  from reimport_loop_fails [OF stored, of e 0 pf prof] obtain errs where
    len: "length errs = length studs" and
    t: "run_tally e ?w = \<lparr>db = students w, successfulRecords = 0, failedRecords = length studs, errors = errs\<rparr>"
    by (auto simp: run)
  have a: "students (importStudents e ?w) = students w"
    using assms(4) by (simp add: importStudents_students [OF g] t)
  have res: "results (importStudents e ?w)
      = Some \<lparr>total = length studs, successful = 0, failed = length studs, error_list = errs\<rparr>"
    using assms(4,5) by (simp add: importStudents_results [OF g] t loaded)
  with len have b: "\<exists>errs. length errs = length studs \<and>
      results (importStudents e ?w)
        = Some \<lparr>total = length studs, successful = 0, failed = length studs, error_list = errs\<rparr>"
    by blast
  have c: "students_policy e (selectedSchool w) \<and> (\<forall>i m. lookup_fault e i \<noteq> Throws m) \<longrightarrow>
      results (importStudents e ?w)
        = Some \<lparr>total = length studs, successful = 0, failed = length studs,
                 error_list = map (\<lambda>(i, s). reimport_error i s) (enumerate 0 studs)\<rparr>"
  proof
    assume h: "students_policy e (selectedSchool w) \<and> (\<forall>i m. lookup_fault e i \<noteq> Throws m)"
    have "import_loop e (selectedSchool w) 0 ?rows ?t0
        = \<lparr>db = students w, successfulRecords = 0, failedRecords = length studs,
           errors = map (\<lambda>(i, s). reimport_error i s) (enumerate 0 studs)\<rparr>"
      using stored h by (subst reimport_loop) auto
    with run t have "errs = map (\<lambda>(i, s). reimport_error i s) (enumerate 0 studs)" by simp
    with res show "results (importStudents e ?w)
        = Some \<lparr>total = length studs, successful = 0, failed = length studs,
                 error_list = map (\<lambda>(i, s). reimport_error i s) (enumerate 0 studs)\<rparr>"
      by simp
  qed
  from a b c show ?thesis by blast
qed

lemma after_blank_import_students:
  "students after_blank_import = [stored ''John Doe'' ''SRN001'' ''A'', stored ''Jane Smith'' ''SRN002'' []]"
  by code_simp

theorem reimport_of_export_inserts_nothing_witness:
  "selectedSchool after_blank_import \<noteq> []
   \<and> students after_blank_import \<noteq> []
   \<and> list_all (\<lambda>s. school_id s = selectedSchool after_blank_import) (students after_blank_import)
   \<and> students_policy demo_env (selectedSchool after_blank_import)
   \<and> students (importStudents demo_env
        (load (map (school_row demo_platform demo_profile) (students after_blank_import)) after_blank_import))
       = students after_blank_import
   \<and> results (importStudents demo_env
        (load (map (school_row demo_platform demo_profile) (students after_blank_import)) after_blank_import))
       = Some \<lparr>total = 2, successful = 0, failed = 2,
                error_list = [''Row 1: SRN SRN001 already exists'', ''Row 2: Missing required fields'']\<rparr>"
proof -
  have h1: "selectedSchool after_blank_import \<noteq> []" by code_simp
  have h2: "students after_blank_import \<noteq> []" by (simp add: after_blank_import_students)
  have h3: "\<forall>s \<in> set (students after_blank_import).
         s \<in> set (students after_blank_import) \<and> school_id s = selectedSchool after_blank_import"
  proof -
    have "selectedSchool after_blank_import = ''school-1''" by code_simp
    then show ?thesis by (simp add: after_blank_import_students stored_def)
  qed
  have h4: "students_policy demo_env (selectedSchool after_blank_import)"
    by (simp add: students_policy_def auth_uid_def demo_env_def)
  have h4': "getUser demo_env = Returned (Some ''user-1'')" by (simp add: demo_env_def)
  have h5: "\<forall>m. log_fault demo_env \<noteq> Throws m" by (simp add: demo_env_def)
  have h6: "\<forall>i m. lookup_fault demo_env i \<noteq> Throws m" by (simp add: demo_env_def)
  have errs: "map (\<lambda>(i, s). reimport_error i s) (enumerate 0 (students after_blank_import))
      = [''Row 1: SRN SRN001 already exists'', ''Row 2: Missing required fields'']"
    by code_simp
  have len: "length (students after_blank_import) = 2" by (simp add: after_blank_import_students)
  from reimport_of_export_inserts_nothing [OF h1 h2 h3 h4' h5, of "''students.xlsx''" demo_platform demo_profile]
    h4 h6
  have "students (importStudents demo_env
        (load (map (school_row demo_platform demo_profile) (students after_blank_import)) after_blank_import))
       = students after_blank_import
   \<and> results (importStudents demo_env
        (load (map (school_row demo_platform demo_profile) (students after_blank_import)) after_blank_import))
       = Some \<lparr>total = 2, successful = 0, failed = 2,
                error_list = [''Row 1: SRN SRN001 already exists'', ''Row 2: Missing required fields'']\<rparr>"
    by (simp add: load_def errs len)
  moreover from h3
  have "list_all (\<lambda>s. school_id s = selectedSchool after_blank_import) (students after_blank_import)"
    by (simp add: list_all_iff)
  ultimately show ?thesis using h1 h2 h4 by blast
qed

text \<open>
  A signed-in admin imports the file with a Section cell of one space into the empty
  table of school-1: both rows are inserted, the second with the empty section that trimming leaves. The
  export of these two records is then loaded and imported again. Its second row is not
  recorded as an existing SRN: it is recorded as a row with missing required fields.
\<close>

theorem reimport_blank_field_counterexample:
  "students after_blank_import = [stored ''John Doe'' ''SRN001'' ''A'', stored ''Jane Smith'' ''SRN002'' []]
   \<and> results (importStudents demo_env
        (load (map (school_row demo_platform demo_profile) (students after_blank_import)) after_blank_import))
       = Some \<lparr>total = 2, successful = 0, failed = 2,
                error_list = [''Row 1: SRN SRN001 already exists'', ''Row 2: Missing required fields'']\<rparr>
   \<and> ''Row 2: Missing required fields'' \<noteq> ''Row 2: SRN SRN002 already exists''"
  by code_simp

subsection \<open>C4: the external id stays unique within a school\<close>

lemma srn_unique_snoc:
  "srn_unique d \<Longrightarrow> \<not> list_ex (\<lambda>s. school_id s = school_id new \<and> srn_no s = srn_no new) d
     \<Longrightarrow> srn_unique (d @ [new])"
  by (auto simp: srn_unique_def list_ex_iff)

lemma import_row_unique: "srn_unique (db t) \<Longrightarrow> srn_unique (db (import_row e school i r t))"
  using import_row_step [of e school i r t]
  by (auto simp: row_failed_def intro: srn_unique_snoc)

lemma import_loop_unique: "srn_unique (db t) \<Longrightarrow> srn_unique (db (import_loop e school i rs t))"
  by (induction rs arbitrary: i t) (auto intro: import_row_unique)

text \<open>
  Claim C4. If no two stored students of one school share an external id, then none do
  after \<open>importStudents\<close>, whatever the loaded rows and the faults of the backend: an insert
  for a pair of school and external id that is stored already is refused by the table.
\<close>

theorem import_preserves_srn_unique:
  assumes "srn_unique (students w)"
  shows "srn_unique (students (importStudents e w))"
proof (cases "selectedSchool w = [] \<or> importData w = []")
  case True
  then obtain msg where "importStudents e w = toast_add (Error msg) w"
    using importStudents_guarded by blast
  with assms show ?thesis by simp
next
  case False
  then have g: "selectedSchool w \<noteq> []" "importData w \<noteq> []" by simp_all
  have "srn_unique (db (run_tally e w))"
    unfolding run_tally_def using assms by (intro import_loop_unique) simp
  with assms show ?thesis
    by (simp add: importStudents_students [OF g] split: reply.splits)
qed

theorem import_preserves_srn_unique_witness:
  "srn_unique (students (load padded_file demo_world))
   \<and> students (importStudents demo_env (load padded_file demo_world)) = [stored ''John Doe'' ''SRN001'' ''A'']
   \<and> srn_unique (students (importStudents demo_env (load padded_file demo_world)))"
proof -
  have h: "srn_unique (students (load padded_file demo_world))" by code_simp
  have ev: "students (importStudents demo_env (load padded_file demo_world)) = [stored ''John Doe'' ''SRN001'' ''A'']"
    by code_simp
  from import_preserves_srn_unique [OF h, of demo_env] h ev show ?thesis by blast
qed

subsection \<open>C5: two rows with the same external id\<close>

text \<open>
  Two rows with all required fields carry the same external id, which no stored record of
  the school has and which trimming leaves as it is; the policies admit the session for
  the school, the lookups and the first insert have no fault and the first date parses.
  Then the first row is inserted and the second is
  recorded with the message of an existing SRN.
\<close>

lemma same_id_unpadded:
  assumes "required_present r1" and "required_present r2"
    and "row_get r1 ''SRN No'' = v" and "row_get r2 ''SRN No'' = v"
    and "trim (toString v) = toString v"
    and "\<not> list_ex (\<lambda>s. srn_no s = toString v \<and> school_id s = school) (db t)"
    and "lookup_fault e i = NoFault" and "insert_fault e i = NoFault"
    and "lookup_fault e (Suc i) = NoFault"
    and "parse_date e (row_get r1 ''Date of Birth'') = Some d"
    and "students_policy e school"
  shows "\<exists>new. import_loop e school i [r1, r2] t
           = t\<lparr>db := db t @ [new],
                successfulRecords := successfulRecords t + 1,
                errors := errors t @ [''Row '' @ show_nat (i + 2) @ '': SRN '' @ toString v @ '' already exists''],
                failedRecords := failedRecords t + 1\<rparr>
         \<and> srn_no new = toString v \<and> school_id new = school"
proof -
  let ?new = "\<lparr>school_id = school,
               srn_no = trim (toString (row_get r1 ''SRN No'')),
               student_name = trim (toString (row_get r1 ''Student Name'')),
               student_class = trim (toString (row_get r1 ''Class'')),
               student_section = trim (toString (row_get r1 ''Section'')),
               date_of_birth = d,
               photo_url = None,
               registration_date = now e i\<rparr>"
  let ?t1 = "t\<lparr>db := db t @ [?new], successfulRecords := successfulRecords t + 1\<rparr>"
  have nomatch: "filter (\<lambda>s. students_policy e (school_id s) \<and> srn_no s = toString v \<and>
                   school_id s = school) (db t) = []"
    using assms(6) by (auto simp: list_ex_iff filter_empty_conv)
  have check: "validateSRN (\<lambda>s. students_policy e (school_id s)) (db t) (lookup_fault e i)
                 (row_get r1 ''SRN No'') school = Returned True"
    using assms(3,7) nomatch by (simp add: validateSRN_def select_srn_def maybeSingle_def)
  have free: "\<not> list_ex (\<lambda>s. school_id s = school \<and> srn_no s = toString v) (db t)"
    using assms(6) by (auto simp: list_ex_iff)
  have ins: "insert_student (\<lambda>s. students_policy e (school_id s)) (insert_fault e i) ?new (db t)
               = Returned (None, db t @ [?new])"
    using assms(3,5,8,11) free by (simp add: insert_student_def)
  have step1: "import_row e school i r1 t = ?t1"
    using assms(1,10) check ins by (simp add: import_row_def required_present_def)
  have found: "lookup_fault e (Suc i) = NoFault \<and> students_policy e school \<and>
      list_ex (\<lambda>s. srn_no s = toString (row_get r2 ''SRN No'') \<and> school_id s = school) (db ?t1)"
    using assms(3,4,5,9,11) by simp
  have step2: "import_row e school (Suc i) r2 ?t1
      = ?t1\<lparr>errors := errors ?t1 @ [''Row '' @ show_nat (Suc i + 1) @ '': SRN '' @
                                       toString (row_get r2 ''SRN No'') @ '' already exists''],
             failedRecords := failedRecords ?t1 + 1\<rparr>"
    by (rule existing_srn_row [OF assms(2) disjI2 [OF found]])
  have "import_loop e school i [r1, r2] t
           = t\<lparr>db := db t @ [?new],
                successfulRecords := successfulRecords t + 1,
                errors := errors t @ [''Row '' @ show_nat (i + 2) @ '': SRN '' @ toString v @ '' already exists''],
                failedRecords := failedRecords t + 1\<rparr>"
    using step1 step2 assms(4) by simp
  moreover have "srn_no ?new = toString v \<and> school_id ?new = school"
    using assms(3,5) by simp
  ultimately show ?thesis by blast
qed

text \<open>
  Claim C5 at a file whose two rows carry the external id \<open>SRN001\<close> with a leading
  space, imported into the empty table by a signed-in admin. The first row is inserted, with the trimmed id.
  The uniqueness check of the second row looks for the id as the cell holds it, finds
  nothing and returns true; the insert of the trimmed id is then refused by the table,
  and the row is recorded with the message of the store, not with the message of an
  existing SRN.
\<close>

theorem padded_duplicate_passes_check:
  "students (importStudents demo_env (load padded_file demo_world)) = [stored ''John Doe'' ''SRN001'' ''A'']
   \<and> validateSRN (\<lambda>s. students_policy demo_env (school_id s)) [stored ''John Doe'' ''SRN001'' ''A'']
         NoFault (Str '' SRN001'') ''school-1'' = Returned True
   \<and> results (importStudents demo_env (load padded_file demo_world))
       = Some \<lparr>total = 2, successful = 1, failed = 1, error_list = [''Row 2: '' @ unique_violation]\<rparr>
   \<and> ''Row 2: '' @ unique_violation \<noteq> ''Row 2: SRN  SRN001 already exists''"
  by code_simp

theorem padded_duplicate_passes_check_witness:
  "\<exists>r. results (importStudents demo_env (load padded_file demo_world)) = Some r
       \<and> successful r = 1 \<and> failed r = 1 \<and> error_list r \<noteq> [''Row 2: SRN  SRN001 already exists'']"
  using padded_duplicate_passes_check by simp

subsection \<open>C6: the export of no records\<close>

text \<open>
  Claim C6, as the code has it. For the empty collection both exporters hand over a book
  with the single sheet \<open>Students\<close>, and that sheet has no cell at all: no data row and no
  header row, since the labels of the header are the keys of the exported rows.
\<close>

theorem export_of_no_records_has_no_cells:
  "exportToExcel_admin pf []
     = Returned ((''students_export_'' @ today pf @ ''.xlsx'',
                  \<lparr>SheetNames = [''Students''],
                   Sheets = [(''Students'', \<lparr>cells = [], ref_last = (0, 0)\<rparr>)]\<rparr>),
                 Success ''Excel file downloaded successfully!'')
   \<and> exportToExcel_school pf prof []
     = Returned ((toString (school_name prof) @ ''_students_'' @ today pf @ ''.xlsx'',
                  \<lparr>SheetNames = [''Students''],
                   Sheets = [(''Students'', \<lparr>cells = [], ref_last = (0, 0)\<rparr>)]\<rparr>),
                 Success ''Excel file downloaded successfully!'')"
  by (simp add: exportToExcel_admin_def exportToExcel_school_def write_students_def json_to_sheet_def
        json_header_def book_new_def book_append_sheet_def enumerate_eq_zip)

theorem export_of_no_records_has_no_cells_witness:
  "exportToExcel_school demo_platform demo_profile []
     = Returned ((''Hill School_students_2025-09-05.xlsx'',
                  \<lparr>SheetNames = [''Students''],
                   Sheets = [(''Students'', \<lparr>cells = [], ref_last = (0, 0)\<rparr>)]\<rparr>),
                 Success ''Excel file downloaded successfully!'')"
  using export_of_no_records_has_no_cells [of demo_platform demo_profile]
  by (simp add: demo_platform_def demo_profile_def)

text \<open>
  The admin dashboard exports the empty collection: the sheet \<open>Students\<close> of the book has
  no cell, so it has no header row. With one record the header row is there.
\<close>

theorem export_empty_counterexample:
  "exportToExcel_admin demo_platform []
     = Returned ((''students_export_2025-09-05.xlsx'',
                  \<lparr>SheetNames = [''Students''],
                   Sheets = [(''Students'', \<lparr>cells = [], ref_last = (0, 0)\<rparr>)]\<rparr>),
                 Success ''Excel file downloaded successfully!'')
   \<and> ((0, 0), Str ''Student Name'') \<in> set (cells (json_to_sheet
         [school_row demo_platform demo_profile (stored ''John Doe'' ''SRN001'' ''A'')]))
   \<and> ((0, 0), Str ''Student Name'') \<notin> set (cells (json_to_sheet []))"
  by code_simp

subsection \<open>C7: a failing row does not stop the batch\<close>






subsection \<open>C8: the summary log entry\<close>




subsection \<open>C9: a sheet without data rows is not loaded\<close>

text \<open>
  Claim C9. For a sheet that gives no row object, \<open>handleFileSelect\<close> shows the error of
  an empty file and changes neither the loaded rows nor the tables; \<open>importStudents\<close>
  with no loaded rows only shows an error; and every outcome that \<open>importStudents\<close> sets
  has a positive total.
\<close>

theorem empty_sheet_not_loaded:
  "handleFileSelect (Some (fname, ReadRows [])) w
     = toast_add (Error ''Excel file is empty'') (w\<lparr>file_name := Some fname\<rparr>)
   \<and> (\<exists>msg. importStudents e (w\<lparr>importData := []\<rparr>) = toast_add (Error msg) (w\<lparr>importData := []\<rparr>))
   \<and> (\<forall>r. results (importStudents e w) = Some r \<longrightarrow> results w = Some r \<or> 0 < total r)"
proof -
  have a: "handleFileSelect (Some (fname, ReadRows [])) w
     = toast_add (Error ''Excel file is empty'') (w\<lparr>file_name := Some fname\<rparr>)"
    by (simp add: handleFileSelect_def)
  have b: "\<exists>msg. importStudents e (w\<lparr>importData := []\<rparr>) = toast_add (Error msg) (w\<lparr>importData := []\<rparr>)"
    by (rule importStudents_guarded) simp
  have c: "\<forall>r. results (importStudents e w) = Some r \<longrightarrow> results w = Some r \<or> 0 < total r"
  proof (cases "selectedSchool w = [] \<or> importData w = []")
    case True
    then obtain msg where "importStudents e w = toast_add (Error msg) w"
      using importStudents_guarded by blast
    then show ?thesis by simp
  next
    case False
    then have g: "selectedSchool w \<noteq> []" "importData w \<noteq> []" by simp_all
    show ?thesis
      using g(2) by (auto simp: importStudents_results [OF g] split: reply.splits if_splits)
  qed
  from a b c show ?thesis by blast
qed

theorem empty_sheet_not_loaded_witness:
  "importData (handleFileSelect (Some (''students.xlsx'', ReadRows [])) demo_world) = []
   \<and> students (handleFileSelect (Some (''students.xlsx'', ReadRows [])) demo_world) = []
   \<and> importStudents demo_env (handleFileSelect (Some (''students.xlsx'', ReadRows [])) demo_world)
       = toast_add (Error ''Please upload an Excel file first'')
           (handleFileSelect (Some (''students.xlsx'', ReadRows [])) demo_world)
   \<and> results (importStudents demo_env (load template demo_world))
       = Some \<lparr>total = 2, successful = 2, failed = 0, error_list = []\<rparr>
   \<and> (\<exists>r. results (importStudents demo_env (load template demo_world)) = Some r \<and> 0 < total r)"
proof -
  have none: "results (load template demo_world) = None" by code_simp
  have ev: "results (importStudents demo_env (load template demo_world))
       = Some \<lparr>total = 2, successful = 2, failed = 0, error_list = []\<rparr>" by code_simp
  have run: "importStudents demo_env (handleFileSelect (Some (''students.xlsx'', ReadRows [])) demo_world)
       = toast_add (Error ''Please upload an Excel file first'')
           (handleFileSelect (Some (''students.xlsx'', ReadRows [])) demo_world)" by code_simp
  from empty_sheet_not_loaded [of "''students.xlsx''" demo_world demo_env]
  have a: "importData (handleFileSelect (Some (''students.xlsx'', ReadRows [])) demo_world) = []"
    and b: "students (handleFileSelect (Some (''students.xlsx'', ReadRows [])) demo_world) = []"
    by (simp_all add: demo_world_def)
  from empty_sheet_not_loaded [of "''students.xlsx''" "load template demo_world" demo_env] none
  have "\<forall>r. results (importStudents demo_env (load template demo_world)) = Some r \<longrightarrow> 0 < total r"
    by auto
  with ev have c: "\<exists>r. results (importStudents demo_env (load template demo_world)) = Some r \<and> 0 < total r"
    by blast
  from a b c ev run show ?thesis by blast
qed

subsection \<open>C10: an error of the lookup counts as an existing SRN\<close>

text \<open>
  Claim C10. A row that has all required fields and whose uniqueness lookup returns an
  error is recorded with the same message as a row whose SRN the lookup finds in the
  table, \<open>Row n: SRN x already exists\<close>; it counts as failed, and the table is left as it is.
\<close>

theorem lookup_error_counts_as_duplicate:
  assumes "required_present r"
    and "lookup_fault e i = Fails m \<or>
         (lookup_fault e i = NoFault \<and> students_policy e school \<and>
          list_ex (\<lambda>s. srn_no s = toString (row_get r ''SRN No'') \<and> school_id s = school) (db t))"
  shows "import_row e school i r t
           = t\<lparr>errors := errors t @ [''Row '' @ show_nat (i + 1) @ '': SRN '' @
                                       toString (row_get r ''SRN No'') @ '' already exists''],
                failedRecords := failedRecords t + 1\<rparr>
       \<and> db (import_row e school i r t) = db t"
  using existing_srn_row [OF assms] by simp

theorem lookup_error_counts_as_duplicate_witness:
  "required_present (pupil ''John Doe'' ''SRN001'' ''A'')
   \<and> lookup_fault failing_lookup_env 0 = Fails ''connection lost''
   \<and> import_row failing_lookup_env ''school-1'' 0 (pupil ''John Doe'' ''SRN001'' ''A'')
        \<lparr>db = [], successfulRecords = 0, failedRecords = 0, errors = []\<rparr>
       = \<lparr>db = [], successfulRecords = 0, failedRecords = 1, errors = [''Row 1: SRN SRN001 already exists'']\<rparr>
   \<and> import_row demo_env ''school-1'' 0 (pupil ''John Doe'' ''SRN001'' ''A'')
        \<lparr>db = [stored ''Jane Smith'' ''SRN001'' ''B''], successfulRecords = 0, failedRecords = 0, errors = []\<rparr>
       = \<lparr>db = [stored ''Jane Smith'' ''SRN001'' ''B''], successfulRecords = 0, failedRecords = 1,
          errors = [''Row 1: SRN SRN001 already exists'']\<rparr>"
proof -
  have h1: "required_present (pupil ''John Doe'' ''SRN001'' ''A'')" by code_simp
  have h2: "lookup_fault failing_lookup_env 0 = Fails ''connection lost''"
    by (simp add: failing_lookup_env_def)
  have h3: "lookup_fault demo_env 0 = NoFault \<and> students_policy demo_env ''school-1'' \<and>
      list_ex (\<lambda>s. srn_no s = toString (row_get (pupil ''John Doe'' ''SRN001'' ''A'') ''SRN No'') \<and> school_id s = ''school-1'')
        (db \<lparr>db = [stored ''Jane Smith'' ''SRN001'' ''B''], successfulRecords = 0, failedRecords = 0, errors = []\<rparr>)"
    by (simp add: demo_env_def pupil_def row_get_def stored_def students_policy_def auth_uid_def)
  have n: "show_nat (Suc 0) = ''1''" by code_simp
  have v: "toString (row_get (pupil ''John Doe'' ''SRN001'' ''A'') ''SRN No'') = ''SRN001''" by code_simp
  from lookup_error_counts_as_duplicate [OF h1 disjI1 [OF h2], of "''school-1''"
         "\<lparr>db = [], successfulRecords = 0, failedRecords = 0, errors = []\<rparr>"]
  have a: "import_row failing_lookup_env ''school-1'' 0 (pupil ''John Doe'' ''SRN001'' ''A'')
        \<lparr>db = [], successfulRecords = 0, failedRecords = 0, errors = []\<rparr>
       = \<lparr>db = [], successfulRecords = 0, failedRecords = 1, errors = [''Row 1: SRN SRN001 already exists'']\<rparr>"
    by (simp add: n v)
  from lookup_error_counts_as_duplicate [OF h1 disjI2 [OF h3]]
  have b: "import_row demo_env ''school-1'' 0 (pupil ''John Doe'' ''SRN001'' ''A'')
        \<lparr>db = [stored ''Jane Smith'' ''SRN001'' ''B''], successfulRecords = 0, failedRecords = 0, errors = []\<rparr>
       = \<lparr>db = [stored ''Jane Smith'' ''SRN001'' ''B''], successfulRecords = 0, failedRecords = 1,
          errors = [''Row 1: SRN SRN001 already exists'']\<rparr>"
    by (simp add: n v)
  from h1 h2 a b show ?thesis by blast
qed

end
